theory Spec2Isabelle
  imports Main
begin

section \<open>The order and payment service\<close>

text \<open>
  The service of \<^verbatim>\<open>order-service/index.js\<close> is a set of request handlers over five
  tables of a relational store and a payment gateway. The handlers are embedded as
  functions from the store before the request to the response and the store after it.

  \<^item> A row is a record; a table is the list of its rows in insertion order, which is also
    the order in which a \<^verbatim>\<open>SELECT\<close> without \<^verbatim>\<open>ORDER BY\<close> returns them here.
  \<^item> The \<^verbatim>\<open>DECIMAL(10,2)\<close> columns hold an integer number of hundredths. The handler
    adds and multiplies them as JavaScript numbers; the arithmetic is taken as exact
    here. Column widths are not modelled.
  \<^item> The timestamp columns are left out: the handlers below never read them.
  \<^item> Every \<^verbatim>\<open>await pool.connect()\<close> and \<^verbatim>\<open>await client.query\<close> may reject. A request carries
    a schedule of booleans, one for each call it makes to the store in turn, the connection
    first (\<open>True\<close>: this call rejects, with no effect); calls beyond the schedule succeed.
    The call to the payment gateway is not a call to the store.
  \<^item> Statements between \<^verbatim>\<open>BEGIN\<close> and \<^verbatim>\<open>COMMIT\<close> reach the store at \<^verbatim>\<open>COMMIT\<close>; a statement
    outside a transaction reaches it at once. Requests are served one at a time.
  \<^item> An exception, a status code and an exception that leaves the handler are values of
    the response type.
\<close>

subsection \<open>Tables\<close>

record cart_row =
  sc_id :: nat
  sc_user_id :: string

record cart_item_row =
  ci_id :: nat
  ci_cart_id :: nat
  ci_product_id :: string
  ci_quantity :: int
  ci_price :: int

record order_row =
  o_id :: nat
  o_user_id :: string
  o_status :: string
  o_total_amount :: int
  o_shipping_address :: string

record order_item_row =
  oi_id :: nat
  oi_order_id :: nat
  oi_product_id :: string
  oi_quantity :: int
  oi_price :: int

record payment_row =
  p_id :: nat
  p_order_id :: nat
  p_amount :: int
  p_status :: string
  p_payment_method :: string
  p_transaction_id :: string

text \<open>
  The store: the five tables and the five \<^verbatim>\<open>SERIAL\<close> sequences that number their rows.
  A sequence is outside every transaction: a value drawn is never given back.
\<close>

record db =
  shopping_carts :: "cart_row list"
  cart_items :: "cart_item_row list"
  orders :: "order_row list"
  order_items :: "order_item_row list"
  payments :: "payment_row list"
  shopping_carts_seq :: nat
  cart_items_seq :: nat
  orders_seq :: nat
  order_items_seq :: nat
  payments_seq :: nat

definition rows ::
  "db \<Rightarrow> cart_row list \<times> cart_item_row list \<times> order_row list \<times> order_item_row list \<times> payment_row list"
where
  "rows d = (shopping_carts d, cart_items d, orders d, order_items d, payments d)"

definition restore :: "db \<Rightarrow> db \<Rightarrow> db" where
  \<comment> \<open>the tables of \<open>s\<close> with the sequences of \<open>d\<close>: what a rollback to \<open>s\<close> leaves\<close>
  "restore s d =
     s\<lparr>shopping_carts_seq := shopping_carts_seq d, cart_items_seq := cart_items_seq d,
       orders_seq := orders_seq d, order_items_seq := order_items_seq d,
       payments_seq := payments_seq d\<rparr>"

subsection \<open>Exceptions and responses\<close>

datatype gateway_error = Declined string | ApiError string | TimedOut

datatype thrown =
    JsError string
  | TypeError
  | NotNullViolation string
  | StoreFailure
  | StripeError gateway_error

datatype 'a response =
    Sent nat 'a
  | SentError nat thrown
  | Escaped thrown

subsection \<open>A pooled connection\<close>

text \<open>
  \<open>cur\<close> is the store as this connection sees it, \<open>snap\<close> the store at \<^verbatim>\<open>BEGIN\<close> while
  a transaction is open, \<open>faults\<close> the rest of the schedule.
\<close>

record client =
  cur :: db
  snap :: "db option"
  faults :: "bool list"

type_synonym 'a io = "client \<Rightarrow> (thrown + 'a) \<times> client"

definition next_fails :: "bool list \<Rightarrow> bool" where
  "next_fails fs = (case fs of [] \<Rightarrow> False | f # _ \<Rightarrow> f)"

definition return_io :: "'a \<Rightarrow> 'a io" where
  "return_io a c = (Inr a, c)"

definition throw :: "thrown \<Rightarrow> 'a io" where
  "throw e c = (Inl e, c)"

definition and_then :: "'a io \<Rightarrow> ('a \<Rightarrow> 'b io) \<Rightarrow> 'b io" where
  "and_then m f c = (case m c of (Inl e, c') \<Rightarrow> (Inl e, c') | (Inr a, c') \<Rightarrow> f a c')"

definition client_query :: "(db \<Rightarrow> (thrown + 'a) \<times> db) \<Rightarrow> 'a io" where
  "client_query stmt c =
     (if next_fails (faults c) then (Inl StoreFailure, c\<lparr>faults := tl (faults c)\<rparr>)
      else (case stmt (cur c) of
              (r, d) \<Rightarrow> (r, c\<lparr>cur := d, faults := tl (faults c)\<rparr>)))"

definition txn_begin :: "unit io" where
  "txn_begin c =
     (if next_fails (faults c) then (Inl StoreFailure, c\<lparr>faults := tl (faults c)\<rparr>)
      else (Inr (), c\<lparr>snap := (case snap c of None \<Rightarrow> Some (cur c) | Some s \<Rightarrow> Some s),
                      faults := tl (faults c)\<rparr>))"

definition txn_commit :: "unit io" where
  "txn_commit c =
     (if next_fails (faults c) then (Inl StoreFailure, c\<lparr>faults := tl (faults c)\<rparr>)
      else (Inr (), c\<lparr>snap := None, faults := tl (faults c)\<rparr>))"

definition txn_rollback :: "unit io" where
  "txn_rollback c =
     (if next_fails (faults c) then (Inl StoreFailure, c\<lparr>faults := tl (faults c)\<rparr>)
      else (Inr (), c\<lparr>cur := (case snap c of None \<Rightarrow> cur c | Some s \<Rightarrow> restore s (cur c)),
                      snap := None, faults := tl (faults c)\<rparr>))"

definition release :: "client \<Rightarrow> db" where
  \<comment> \<open>a transaction still open when the connection goes back was never committed\<close>
  "release c = (case snap c of None \<Rightarrow> cur c | Some s \<Rightarrow> restore s (cur c))"

definition with_client :: "bool list \<Rightarrow> db \<Rightarrow> (client \<Rightarrow> 'a response \<times> client) \<Rightarrow> 'a response \<times> db" where
  \<comment> \<open>\<^verbatim>\<open>const client = await pool.connect(); try { ... } finally { client.release(); }\<close>\<close>
  "with_client fs d handler =
     (if next_fails fs then (Escaped StoreFailure, d)
      else (case handler \<lparr>cur = d, snap = None, faults = tl fs\<rparr> of (r, c) \<Rightarrow> (r, release c)))"

definition try_catch :: "'a io \<Rightarrow> nat \<Rightarrow> nat \<Rightarrow> client \<Rightarrow> 'a response \<times> client" where
  \<comment> \<open>\<^verbatim>\<open>try { ...; res.status(ok).send(a) } catch (error) { res.status(bad).send(error) }\<close>\<close>
  "try_catch body ok bad c =
     (case body c of
        (Inr a, c') \<Rightarrow> (Sent ok a, c')
      | (Inl error, c') \<Rightarrow> (SentError bad error, c'))"

definition try_catch_rollback :: "'a io \<Rightarrow> nat \<Rightarrow> nat \<Rightarrow> client \<Rightarrow> 'a response \<times> client" where
  \<comment> \<open>the same with \<^verbatim>\<open>await client.query('ROLLBACK')\<close> first in the catch block\<close>
  "try_catch_rollback body ok bad c =
     (case body c of
        (Inr a, c') \<Rightarrow> (Sent ok a, c')
      | (Inl error, c') \<Rightarrow>
          (case txn_rollback c' of
             (Inr _, c'') \<Rightarrow> (SentError bad error, c'')
           | (Inl e, c'') \<Rightarrow> (Escaped e, c'')))"

subsection \<open>The statements\<close>

definition user_cart_ids :: "string \<Rightarrow> db \<Rightarrow> nat list" where
  \<comment> \<open>\<^verbatim>\<open>SELECT id FROM shopping_carts WHERE user_id = $1\<close>\<close>
  "user_cart_ids uid d = map sc_id (filter (\<lambda>sc. sc_user_id sc = uid) (shopping_carts d))"

definition select_carts :: "string \<Rightarrow> db \<Rightarrow> (thrown + cart_row list) \<times> db" where
  \<comment> \<open>\<^verbatim>\<open>SELECT * FROM shopping_carts WHERE user_id = $1\<close>\<close>
  "select_carts uid d = (Inr (filter (\<lambda>sc. sc_user_id sc = uid) (shopping_carts d)), d)"

definition insert_cart :: "string \<Rightarrow> db \<Rightarrow> (thrown + cart_row list) \<times> db" where
  \<comment> \<open>\<^verbatim>\<open>INSERT INTO shopping_carts (user_id) VALUES ($1) RETURNING *\<close>\<close>
  "insert_cart uid d =
     (let row = \<lparr>sc_id = shopping_carts_seq d, sc_user_id = uid\<rparr>
      in (Inr [row], d\<lparr>shopping_carts := shopping_carts d @ [row],
                       shopping_carts_seq := Suc (shopping_carts_seq d)\<rparr>))"

definition insert_cart_item ::
  "nat \<Rightarrow> string option \<Rightarrow> int option \<Rightarrow> int option \<Rightarrow> db \<Rightarrow> (thrown + unit) \<times> db" where
  \<comment> \<open>\<^verbatim>\<open>INSERT INTO cart_items (cart_id, product_id, quantity, price) VALUES ($1, $2, $3, $4)\<close>;
      the last three columns are \<^verbatim>\<open>NOT NULL\<close>\<close>
  "insert_cart_item cart pid qty pr d =
     (case pid of
        None \<Rightarrow> (Inl (NotNullViolation ''product_id''), d\<lparr>cart_items_seq := Suc (cart_items_seq d)\<rparr>)
      | Some p \<Rightarrow>
     (case qty of
        None \<Rightarrow> (Inl (NotNullViolation ''quantity''), d\<lparr>cart_items_seq := Suc (cart_items_seq d)\<rparr>)
      | Some q \<Rightarrow>
     (case pr of
        None \<Rightarrow> (Inl (NotNullViolation ''price''), d\<lparr>cart_items_seq := Suc (cart_items_seq d)\<rparr>)
      | Some a \<Rightarrow>
          (Inr (), d\<lparr>cart_items := cart_items d @
                        [\<lparr>ci_id = cart_items_seq d, ci_cart_id = cart, ci_product_id = p,
                          ci_quantity = q, ci_price = a\<rparr>],
                      cart_items_seq := Suc (cart_items_seq d)\<rparr>))))"

definition delete_cart_item :: "nat \<Rightarrow> string \<Rightarrow> db \<Rightarrow> (thrown + unit) \<times> db" where
  \<comment> \<open>\<^verbatim>\<open>DELETE FROM cart_items WHERE id = $1 AND cart_id IN (SELECT id FROM shopping_carts WHERE user_id = $2)\<close>\<close>
  "delete_cart_item item uid d =
     (Inr (), d\<lparr>cart_items :=
                  filter (\<lambda>ci. \<not> (ci_id ci = item \<and> ci_cart_id ci \<in> set (user_cart_ids uid d)))
                    (cart_items d)\<rparr>)"

definition joined_cart_items :: "string \<Rightarrow> db \<Rightarrow> cart_item_row list" where
  \<comment> \<open>\<^verbatim>\<open>SELECT ci.* FROM cart_items ci JOIN shopping_carts sc ON ci.cart_id = sc.id WHERE sc.user_id = $1\<close>\<close>
  "joined_cart_items uid d =
     concat (map (\<lambda>ci. map (\<lambda>sc. ci)
                          (filter (\<lambda>sc. ci_cart_id ci = sc_id sc \<and> sc_user_id sc = uid)
                             (shopping_carts d)))
               (cart_items d))"

definition select_cart_items :: "string \<Rightarrow> db \<Rightarrow> (thrown + cart_item_row list) \<times> db" where
  "select_cart_items uid d = (Inr (joined_cart_items uid d), d)"

definition insert_order ::
  "string \<Rightarrow> string \<Rightarrow> int \<Rightarrow> string option \<Rightarrow> db \<Rightarrow> (thrown + order_row list) \<times> db" where
  \<comment> \<open>\<^verbatim>\<open>INSERT INTO orders (user_id, status, total_amount, shipping_address) VALUES ($1, $2, $3, $4) RETURNING *\<close>;
      \<^verbatim>\<open>shipping_address\<close> is \<^verbatim>\<open>NOT NULL\<close>\<close>
  "insert_order uid status amount address d =
     (case address of
        None \<Rightarrow> (Inl (NotNullViolation ''shipping_address''), d\<lparr>orders_seq := Suc (orders_seq d)\<rparr>)
      | Some a \<Rightarrow>
          (let row = \<lparr>o_id = orders_seq d, o_user_id = uid, o_status = status,
                      o_total_amount = amount, o_shipping_address = a\<rparr>
           in (Inr [row], d\<lparr>orders := orders d @ [row], orders_seq := Suc (orders_seq d)\<rparr>)))"

definition insert_order_item :: "nat \<Rightarrow> string \<Rightarrow> int \<Rightarrow> int \<Rightarrow> db \<Rightarrow> (thrown + unit) \<times> db" where
  \<comment> \<open>\<^verbatim>\<open>INSERT INTO order_items (order_id, product_id, quantity, price) VALUES ($1, $2, $3, $4)\<close>\<close>
  "insert_order_item oid pid qty pr d =
     (Inr (), d\<lparr>order_items := order_items d @
                   [\<lparr>oi_id = order_items_seq d, oi_order_id = oid, oi_product_id = pid,
                     oi_quantity = qty, oi_price = pr\<rparr>],
                 order_items_seq := Suc (order_items_seq d)\<rparr>)"

definition delete_cart_items :: "string \<Rightarrow> db \<Rightarrow> (thrown + unit) \<times> db" where
  \<comment> \<open>\<^verbatim>\<open>DELETE FROM cart_items WHERE cart_id IN (SELECT id FROM shopping_carts WHERE user_id = $1)\<close>\<close>
  "delete_cart_items uid d =
     (Inr (), d\<lparr>cart_items :=
                  filter (\<lambda>ci. ci_cart_id ci \<notin> set (user_cart_ids uid d)) (cart_items d)\<rparr>)"

definition select_order :: "nat \<Rightarrow> string \<Rightarrow> db \<Rightarrow> (thrown + order_row list) \<times> db" where
  \<comment> \<open>\<^verbatim>\<open>SELECT * FROM orders WHERE id = $1 AND user_id = $2\<close>\<close>
  "select_order oid uid d = (Inr (filter (\<lambda>r. o_id r = oid \<and> o_user_id r = uid) (orders d)), d)"

definition insert_payment ::
  "nat \<Rightarrow> int \<Rightarrow> string \<Rightarrow> string option \<Rightarrow> string \<Rightarrow> db \<Rightarrow> (thrown + unit) \<times> db" where
  \<comment> \<open>\<^verbatim>\<open>INSERT INTO payments (order_id, amount, status, payment_method, transaction_id) VALUES ($1, $2, $3, $4, $5)\<close>;
      \<^verbatim>\<open>payment_method\<close> is \<^verbatim>\<open>NOT NULL\<close>\<close>
  "insert_payment oid amount status method txid d =
     (case method of
        None \<Rightarrow> (Inl (NotNullViolation ''payment_method''), d\<lparr>payments_seq := Suc (payments_seq d)\<rparr>)
      | Some m \<Rightarrow>
          (Inr (), d\<lparr>payments := payments d @
                        [\<lparr>p_id = payments_seq d, p_order_id = oid, p_amount = amount,
                          p_status = status, p_payment_method = m, p_transaction_id = txid\<rparr>],
                      payments_seq := Suc (payments_seq d)\<rparr>))"

definition update_order_status :: "string \<Rightarrow> nat \<Rightarrow> db \<Rightarrow> (thrown + unit) \<times> db" where
  \<comment> \<open>\<^verbatim>\<open>UPDATE orders SET status = $1, updated_at = CURRENT_TIMESTAMP WHERE id = $2\<close>\<close>
  "update_order_status status oid d =
     (Inr (), d\<lparr>orders := map (\<lambda>r. if o_id r = oid then r\<lparr>o_status := status\<rparr> else r) (orders d)\<rparr>)"

subsection \<open>The shopping cart routes\<close>

record add_body =
  product_id :: "string option"
  quantity :: "int option"
  price :: "int option"

definition add_item_try :: "string \<Rightarrow> add_body \<Rightarrow> string io" where
  "add_item_try uid body =
     and_then txn_begin (\<lambda>_.
     and_then (client_query (select_carts uid)) (\<lambda>found.
     and_then (if found = [] then client_query (insert_cart uid) else return_io found) (\<lambda>cart.
     (case cart of
        [] \<Rightarrow> throw TypeError
      | sc # _ \<Rightarrow>
     and_then (client_query (insert_cart_item (sc_id sc) (product_id body) (quantity body) (price body))) (\<lambda>_.
     and_then txn_commit (\<lambda>_.
     return_io ''Item added to cart''))))))"

definition add_item :: "string \<Rightarrow> add_body \<Rightarrow> bool list \<Rightarrow> db \<Rightarrow> string response \<times> db" where
  \<comment> \<open>\<^verbatim>\<open>POST /cart/add\<close>\<close>
  "add_item uid body fs d = with_client fs d (try_catch_rollback (add_item_try uid body) 201 400)"

definition remove_item :: "string \<Rightarrow> nat \<Rightarrow> bool list \<Rightarrow> db \<Rightarrow> string response \<times> db" where
  \<comment> \<open>\<^verbatim>\<open>DELETE /cart/remove/:itemId\<close>, outside any transaction\<close>
  "remove_item uid item fs d =
     with_client fs d
       (try_catch (and_then (client_query (delete_cart_item item uid))
                     (\<lambda>_. return_io ''Item removed from cart'')) 200 400)"

definition get_cart :: "string \<Rightarrow> bool list \<Rightarrow> db \<Rightarrow> cart_item_row list response \<times> db" where
  \<comment> \<open>\<^verbatim>\<open>GET /cart\<close>\<close>
  "get_cart uid fs d = with_client fs d (try_catch (client_query (select_cart_items uid)) 200 500)"

subsection \<open>The order routes\<close>

definition total_amount :: "cart_item_row list \<Rightarrow> int" where
  \<comment> \<open>\<^verbatim>\<open>cartItems.rows.reduce((sum, item) => sum + item.price * item.quantity, 0)\<close>\<close>
  "total_amount items = foldl (\<lambda>sum item. sum + ci_price item * ci_quantity item) 0 items"

primrec insert_order_items :: "nat \<Rightarrow> cart_item_row list \<Rightarrow> unit io" where
  \<comment> \<open>\<^verbatim>\<open>for (const item of cartItems.rows) { await client.query('INSERT INTO order_items ...') }\<close>\<close>
  "insert_order_items oid [] = return_io ()"
| "insert_order_items oid (item # items) =
     and_then (client_query (insert_order_item oid (ci_product_id item) (ci_quantity item) (ci_price item)))
       (\<lambda>_. insert_order_items oid items)"

definition place_order_try :: "string \<Rightarrow> string option \<Rightarrow> order_row io" where
  "place_order_try uid shipping_address =
     and_then txn_begin (\<lambda>_.
     and_then (client_query (select_cart_items uid)) (\<lambda>cartItems.
     if cartItems = [] then throw (JsError ''Cart is empty'')
     else
     and_then (client_query (insert_order uid ''pending'' (total_amount cartItems) shipping_address)) (\<lambda>inserted.
     (case inserted of
        [] \<Rightarrow> throw TypeError
      | order # _ \<Rightarrow>
     and_then (insert_order_items (o_id order) cartItems) (\<lambda>_.
     and_then (client_query (delete_cart_items uid)) (\<lambda>_.
     and_then txn_commit (\<lambda>_.
     return_io order)))))))"

definition place_order :: "string \<Rightarrow> string option \<Rightarrow> bool list \<Rightarrow> db \<Rightarrow> order_row response \<times> db" where
  \<comment> \<open>\<^verbatim>\<open>POST /order/place\<close>\<close>
  "place_order uid shipping_address fs d =
     with_client fs d (try_catch_rollback (place_order_try uid shipping_address) 201 400)"

subsection \<open>The payment route\<close>

text \<open>
  The gateway is a parameter: what \<^verbatim>\<open>stripe.paymentIntents.create\<close> answers to an amount in
  minor units and a token, the identifier of the payment intent or the error it throws.
\<close>

type_synonym gateway = "int \<Rightarrow> string \<Rightarrow> gateway_error + string"

record payment_body =
  order_id :: nat
  payment_method :: "string option"
  token :: string

definition stripe_create :: "gateway \<Rightarrow> int \<Rightarrow> string \<Rightarrow> string io" where
  "stripe_create stripe amount tok c =
     (case stripe amount tok of
        Inl e \<Rightarrow> (Inl (StripeError e), c)
      | Inr intent \<Rightarrow> (Inr intent, c))"

definition process_payment_try :: "string \<Rightarrow> payment_body \<Rightarrow> gateway \<Rightarrow> string io" where
  "process_payment_try uid body stripe =
     and_then (client_query (select_order (order_id body) uid)) (\<lambda>found.
     (case found of
        [] \<Rightarrow> throw (JsError ''Order not found'')
      | order # _ \<Rightarrow>
     and_then (stripe_create stripe (o_total_amount order) (token body)) (\<lambda>paymentIntent.
     and_then (client_query (insert_payment (order_id body) (o_total_amount order) ''completed''
                               (payment_method body) paymentIntent)) (\<lambda>_.
     and_then (client_query (update_order_status ''paid'' (order_id body))) (\<lambda>_.
     return_io ''Payment processed successfully'')))))"

definition process_payment ::
  "string \<Rightarrow> payment_body \<Rightarrow> gateway \<Rightarrow> bool list \<Rightarrow> db \<Rightarrow> string response \<times> db" where
  \<comment> \<open>\<^verbatim>\<open>POST /payment/process\<close>, outside any transaction\<close>
  "process_payment uid body stripe fs d =
     with_client fs d (try_catch (process_payment_try uid body stripe) 200 400)"

subsection \<open>The completed payments of an order\<close>

definition completed_payments :: "nat \<Rightarrow> db \<Rightarrow> payment_row list" where
  "completed_payments oid d =
     filter (\<lambda>p. p_order_id p = oid \<and> p_status p = ''completed'') (payments d)"

subsection \<open>Sequences of requests\<close>

text \<open>
  A request is a route with its arguments and, for a payment, the gateway's behaviour during
  the request. \<open>serve\<close> is the effect of one request on the store under a schedule, \<open>run\<close>
  the effect of a list of requests served one after the other. \<^verbatim>\<open>GET /orders\<close> runs one
  \<^verbatim>\<open>SELECT\<close>; only its (empty) effect on the store appears here.
\<close>

datatype request =
    AddItem string add_body
  | RemoveItem string nat
  | GetCart string
  | PlaceOrder string "string option"
  | ProcessPayment string payment_body gateway
  | ListOrders string

fun serve :: "request \<Rightarrow> bool list \<Rightarrow> db \<Rightarrow> db" where
  "serve (AddItem uid body) fs d = snd (add_item uid body fs d)"
| "serve (RemoveItem uid item) fs d = snd (remove_item uid item fs d)"
| "serve (GetCart uid) fs d = snd (get_cart uid fs d)"
| "serve (PlaceOrder uid shipping_address) fs d = snd (place_order uid shipping_address fs d)"
| "serve (ProcessPayment uid body stripe) fs d = snd (process_payment uid body stripe fs d)"
| "serve (ListOrders uid) fs d = d"

primrec run :: "(request \<times> bool list) list \<Rightarrow> db \<Rightarrow> db" where
  "run [] d = d"
| "run (x # xs) d = run xs (serve (fst x) (snd x) d)"


subsection \<open>An order item that copies a cart item\<close>


subsection \<open>Computations and the open transaction\<close>

text \<open>
  Two properties of a computation, used to follow a transaction through a handler: it never
  opens or closes a transaction, or it does not when it throws.
\<close>

definition stays :: "'a io \<Rightarrow> bool" where
  "stays m = (\<forall>c r c'. m c = (r, c') \<longrightarrow> snap c' = snap c)"

definition fails_in_txn :: "'a io \<Rightarrow> bool" where
  "fails_in_txn m = (\<forall>c e c'. m c = (Inl e, c') \<longrightarrow> snap c' = snap c)"

text \<open>
  The shopping carts as a connection sees them and as they were when its transaction
  began, and the computations that leave both alone.
\<close>

definition carts_are :: "cart_row list \<Rightarrow> client \<Rightarrow> bool" where
  "carts_are S c \<longleftrightarrow>
     shopping_carts (cur c) = S
     \<and> (case snap c of None \<Rightarrow> True | Some s \<Rightarrow> shopping_carts s = S)"


subsection \<open>A small shop\<close>


definition shop_cart :: db where
  "shop_cart =
     \<lparr>shopping_carts = [\<lparr>sc_id = 1, sc_user_id = ''u''\<rparr>],
      cart_items =
        [\<lparr>ci_id = 1, ci_cart_id = 1, ci_product_id = ''A'', ci_quantity = 2, ci_price = 2000\<rparr>,
         \<lparr>ci_id = 2, ci_cart_id = 1, ci_product_id = ''B'', ci_quantity = 1, ci_price = 1500\<rparr>],
      orders = [], order_items = [], payments = [],
      shopping_carts_seq = 2, cart_items_seq = 3, orders_seq = 1, order_items_seq = 1,
      payments_seq = 1\<rparr>"

definition shop_order_row :: order_row where
  "shop_order_row =
     \<lparr>o_id = 1, o_user_id = ''u'', o_status = ''pending'', o_total_amount = 5500,
      o_shipping_address = ''addr''\<rparr>"

definition shop_order :: db where
  "shop_order =
     \<lparr>shopping_carts = [\<lparr>sc_id = 1, sc_user_id = ''u''\<rparr>],
      cart_items = [],
      orders = [shop_order_row],
      order_items =
        [\<lparr>oi_id = 1, oi_order_id = 1, oi_product_id = ''A'', oi_quantity = 2, oi_price = 2000\<rparr>,
         \<lparr>oi_id = 2, oi_order_id = 1, oi_product_id = ''B'', oi_quantity = 1, oi_price = 1500\<rparr>],
      payments = [],
      shopping_carts_seq = 2, cart_items_seq = 3, orders_seq = 2, order_items_seq = 3,
      payments_seq = 1\<rparr>"




definition pay_body :: payment_body where
  "pay_body = \<lparr>order_id = 1, payment_method = Some ''card'', token = ''tok''\<rparr>"

definition gw_success :: gateway where
  "gw_success amount tok = Inr ''pi_1''"



definition shop_paid :: db where
  \<comment> \<open>the store after the order has been paid once\<close>
  "shop_paid = snd (process_payment ''u'' pay_body gw_success [] shop_order)"

section \<open>Properties\<close>

subsection \<open>Schedules without a failing call\<close>

lemma nf_next [simp]: "True \<notin> set fs \<Longrightarrow> next_fails fs = False"
  by (cases fs) (auto simp: next_fails_def)

lemma nf_tl [simp]: "True \<notin> set fs \<Longrightarrow> True \<notin> set (tl fs)"
  by (cases fs) auto

lemma restore_same [simp]: "restore d d = d"
  by (simp add: restore_def)

lemma rows_restore [simp]: "rows (restore s d) = rows s"
  by (simp add: restore_def rows_def)

subsection \<open>Payment\<close>


lemma process_payment_ok:
  assumes "filter (\<lambda>r. o_id r = order_id body \<and> o_user_id r = uid) (orders d) = order # rest"
      and "stripe (o_total_amount order) (token body) = Inr intent"
      and "payment_method body = Some m"
      and "True \<notin> set fs"
  shows "process_payment uid body stripe fs d =
           (Sent 200 ''Payment processed successfully'',
            d\<lparr>orders := map (\<lambda>r. if o_id r = order_id body then r\<lparr>o_status := ''paid''\<rparr> else r) (orders d),
              payments := payments d @
                [\<lparr>p_id = payments_seq d, p_order_id = order_id body, p_amount = o_total_amount order,
                  p_status = ''completed'', p_payment_method = m, p_transaction_id = intent\<rparr>],
              payments_seq := Suc (payments_seq d)\<rparr>)"
  using assms
  by (simp add: process_payment_def with_client_def try_catch_def process_payment_try_def
        and_then_def client_query_def select_order_def stripe_create_def release_def
        insert_payment_def update_order_status_def throw_def return_io_def)

lemma process_payment_Sent:
  assumes "process_payment uid body stripe fs d = (Sent code msg, d')"
  shows "\<exists>order rest intent m.
           filter (\<lambda>r. o_id r = order_id body \<and> o_user_id r = uid) (orders d) = order # rest
         \<and> stripe (o_total_amount order) (token body) = Inr intent
         \<and> payment_method body = Some m
         \<and> d' = d\<lparr>orders := map (\<lambda>r. if o_id r = order_id body then r\<lparr>o_status := ''paid''\<rparr> else r) (orders d),
              payments := payments d @
                [\<lparr>p_id = payments_seq d, p_order_id = order_id body, p_amount = o_total_amount order,
                  p_status = ''completed'', p_payment_method = m, p_transaction_id = intent\<rparr>],
              payments_seq := Suc (payments_seq d)\<rparr>"
  using assms
  by (auto simp: process_payment_def with_client_def try_catch_def process_payment_try_def
        and_then_def client_query_def select_order_def stripe_create_def release_def
        insert_payment_def update_order_status_def throw_def return_io_def
        split: if_splits prod.splits sum.splits list.splits option.splits)

lemma shop_order_found:
  "filter (\<lambda>r. o_id r = order_id pay_body \<and> o_user_id r = ''u'') (orders shop_order) = shop_order_row # []"
  by (simp add: shop_order_def shop_order_row_def pay_body_def)





text \<open>
  Claim C9. The payment handler opens no transaction, so each statement is committed on
  its own. Its calls to the store are the connection, the \<^verbatim>\<open>SELECT\<close> of the order, the
  \<^verbatim>\<open>INSERT INTO payments\<close> and the \<^verbatim>\<open>UPDATE orders\<close>. When the first three succeed and the
  \<^verbatim>\<open>UPDATE\<close> rejects, the handler answers 400, the \<open>completed\<close> Payment row stays in the
  store and the orders table is as before the call (the order is still \<open>pending\<close>).
\<close>

theorem process_payment_not_atomic:
  assumes "filter (\<lambda>r. o_id r = order_id body \<and> o_user_id r = uid) (orders d) = order # rest"
      and "stripe (o_total_amount order) (token body) = Inr intent"
      and "payment_method body = Some m"
      and "fs = False # False # False # True # later"
  shows "process_payment uid body stripe fs d =
           (SentError 400 StoreFailure,
            d\<lparr>payments := payments d @
                [\<lparr>p_id = payments_seq d, p_order_id = order_id body, p_amount = o_total_amount order,
                  p_status = ''completed'', p_payment_method = m, p_transaction_id = intent\<rparr>],
              payments_seq := Suc (payments_seq d)\<rparr>)"
  using assms
  by (simp add: process_payment_def with_client_def try_catch_def process_payment_try_def
        and_then_def client_query_def select_order_def stripe_create_def release_def
        insert_payment_def update_order_status_def throw_def return_io_def next_fails_def)

theorem process_payment_not_atomic_witness:
  "orders (snd (process_payment ''u'' pay_body gw_success [False, False, False, True] shop_order))
     = [shop_order_row]
   \<and> o_status shop_order_row = ''pending''
   \<and> completed_payments 1 (snd (process_payment ''u'' pay_body gw_success [False, False, False, True] shop_order))
     = [\<lparr>p_id = 1, p_order_id = 1, p_amount = 5500, p_status = ''completed'',
         p_payment_method = ''card'', p_transaction_id = ''pi_1''\<rparr>]"
proof -
  have charged: "gw_success (o_total_amount shop_order_row) (token pay_body) = Inr ''pi_1''"
    by (simp add: gw_success_def)
  have by_card: "payment_method pay_body = Some ''card''"
    by (simp add: pay_body_def)
  have sched: "[False, False, False, True] = False # False # False # True # []"
    by simp
  from process_payment_not_atomic [where stripe = gw_success, OF shop_order_found charged by_card sched]
  show ?thesis
    by (simp add: completed_payments_def shop_order_def shop_order_row_def pay_body_def)
qed

lemma paid_rows:
  fixes body :: payment_body
  assumes "order \<in> set os" and "o_id order = order_id body" and "o_user_id order = uid"
  shows "(\<exists>r \<in> set (map (\<lambda>r. if o_id r = order_id body then r\<lparr>o_status := ''paid''\<rparr> else r) os).
            o_id r = order_id body \<and> o_user_id r = uid)
       \<and> (\<forall>r \<in> set (map (\<lambda>r. if o_id r = order_id body then r\<lparr>o_status := ''paid''\<rparr> else r) os).
            o_id r = order_id body \<longrightarrow> o_status r = ''paid'')"
proof
  have "order\<lparr>o_status := ''paid''\<rparr> \<in> (\<lambda>r. if o_id r = order_id body then r\<lparr>o_status := ''paid''\<rparr> else r) ` set os"
    using assms(1,2) by (intro image_eqI [where x = order]) simp_all
  then show "\<exists>r \<in> set (map (\<lambda>r. if o_id r = order_id body then r\<lparr>o_status := ''paid''\<rparr> else r) os).
            o_id r = order_id body \<and> o_user_id r = uid"
    using assms(2,3) by (intro bexI [where x = "order\<lparr>o_status := ''paid''\<rparr>"]) simp_all
next
  show "\<forall>r \<in> set (map (\<lambda>r. if o_id r = order_id body then r\<lparr>o_status := ''paid''\<rparr> else r) os).
            o_id r = order_id body \<longrightarrow> o_status r = ''paid''"
    by auto
qed

text \<open>
  Claim C3, as amended. After a call that answers with success, the order belongs to the
  caller, it has status \<open>paid\<close>, and the call has appended exactly one Payment row, of
  status \<open>completed\<close>, for it: the number of \<open>completed\<close> Payment rows of the order is one more
  than before the call. The handler does not look at the order's status or at earlier
  Payment rows.
\<close>

theorem process_payment_success_adds_one:
  assumes "process_payment uid body stripe fs d = (Sent code msg, d')"
  shows "(\<exists>r \<in> set (orders d'). o_id r = order_id body \<and> o_user_id r = uid)
       \<and> (\<forall>r \<in> set (orders d'). o_id r = order_id body \<longrightarrow> o_status r = ''paid'')
       \<and> (\<exists>row. payments d' = payments d @ [row] \<and> p_order_id row = order_id body
                 \<and> p_status row = ''completed'')
       \<and> length (completed_payments (order_id body) d')
           = Suc (length (completed_payments (order_id body) d))"
proof -
  from process_payment_Sent [OF assms] obtain order rest intent m where
    found: "filter (\<lambda>r. o_id r = order_id body \<and> o_user_id r = uid) (orders d) = order # rest"
    and d': "d' = d\<lparr>orders := map (\<lambda>r. if o_id r = order_id body then r\<lparr>o_status := ''paid''\<rparr> else r) (orders d),
              payments := payments d @
                [\<lparr>p_id = payments_seq d, p_order_id = order_id body, p_amount = o_total_amount order,
                  p_status = ''completed'', p_payment_method = m, p_transaction_id = intent\<rparr>],
              payments_seq := Suc (payments_seq d)\<rparr>"
    by blast
  from found have "order \<in> set (filter (\<lambda>r. o_id r = order_id body \<and> o_user_id r = uid) (orders d))"
    by simp
  then have mem: "order \<in> set (orders d)" and own: "o_id order = order_id body" "o_user_id order = uid"
    by simp_all
  have os: "orders d' = map (\<lambda>r. if o_id r = order_id body then r\<lparr>o_status := ''paid''\<rparr> else r) (orders d)"
    by (simp add: d')
  have ps: "payments d' = payments d @
                [\<lparr>p_id = payments_seq d, p_order_id = order_id body, p_amount = o_total_amount order,
                  p_status = ''completed'', p_payment_method = m, p_transaction_id = intent\<rparr>]"
    by (simp add: d')
  note paid = paid_rows [OF mem own]
  have three: "\<exists>row. payments d' = payments d @ [row] \<and> p_order_id row = order_id body
                 \<and> p_status row = ''completed''"
    unfolding ps by simp
  have four: "length (completed_payments (order_id body) d')
           = Suc (length (completed_payments (order_id body) d))"
    by (simp add: completed_payments_def ps)
  from paid [folded os] three four show ?thesis
    by blast
qed

theorem process_payment_success_adds_one_witness:
  "process_payment ''u'' pay_body gw_success [] shop_order
     = (Sent 200 ''Payment processed successfully'', shop_paid)
   \<and> length (completed_payments (order_id pay_body) shop_paid) = 1"
proof -
  have run: "process_payment ''u'' pay_body gw_success [] shop_order
               = (Sent 200 ''Payment processed successfully'', shop_paid)"
    unfolding shop_paid_def
    using process_payment_ok [where stripe = gw_success and fs = "[]" and body = pay_body
        and uid = "''u''" and d = shop_order and m = "''card''" and intent = "''pi_1''",
        OF shop_order_found]
    by (simp add: gw_success_def pay_body_def)
  from process_payment_success_adds_one [OF run] show ?thesis
    using run by (simp add: completed_payments_def shop_order_def)
qed

text \<open>
  The claim as stated fails: paying an order that is already paid succeeds again and
  leaves two \<open>completed\<close> Payment rows for it.
\<close>

theorem second_payment_counterexample:
  "fst (process_payment ''u'' pay_body gw_success [] shop_paid)
     = Sent 200 ''Payment processed successfully''
   \<and> length (completed_payments 1 (snd (process_payment ''u'' pay_body gw_success [] shop_paid))) = 2"
proof -
  have paid: "shop_paid =
     shop_order\<lparr>orders := [shop_order_row\<lparr>o_status := ''paid''\<rparr>],
       payments := [\<lparr>p_id = 1, p_order_id = 1, p_amount = 5500, p_status = ''completed'',
                     p_payment_method = ''card'', p_transaction_id = ''pi_1''\<rparr>],
       payments_seq := 2\<rparr>"
    unfolding shop_paid_def
    using process_payment_ok [where stripe = gw_success and fs = "[]" and body = pay_body
        and uid = "''u''" and d = shop_order and m = "''card''" and intent = "''pi_1''",
        OF shop_order_found]
    by (simp add: gw_success_def pay_body_def shop_order_def shop_order_row_def)
  have found: "filter (\<lambda>r. o_id r = order_id pay_body \<and> o_user_id r = ''u'') (orders shop_paid)
                 = shop_order_row\<lparr>o_status := ''paid''\<rparr> # []"
    by (simp add: paid shop_order_row_def pay_body_def)
  show ?thesis
    using process_payment_ok [where stripe = gw_success and fs = "[]" and body = pay_body
        and uid = "''u''" and d = shop_paid and m = "''card''" and intent = "''pi_1''",
        OF found]
    by (simp add: gw_success_def pay_body_def completed_payments_def paid)
qed

subsection \<open>Removing a cart item\<close>


lemma user_cart_ids_cart_items [simp]:
  "user_cart_ids uid (d\<lparr>cart_items := xs\<rparr>) = user_cart_ids uid d"
  by (simp add: user_cart_ids_def)



subsection \<open>Transactions\<close>

lemma and_then_Inr:
  "and_then m f c = (Inr b, c') \<longleftrightarrow> (\<exists>a c1. m c = (Inr a, c1) \<and> f a c1 = (Inr b, c'))"
  by (auto simp: and_then_def split: prod.splits sum.splits)

lemma and_then_Inl:
  "and_then m f c = (Inl e, c') \<longleftrightarrow>
     m c = (Inl e, c') \<or> (\<exists>a c1. m c = (Inr a, c1) \<and> f a c1 = (Inl e, c'))"
  by (auto simp: and_then_def split: prod.splits sum.splits)

lemma stays_return: "stays (return_io a)"
  by (simp add: stays_def return_io_def)

lemma stays_throw: "stays (throw e)"
  by (simp add: stays_def throw_def)

lemma stays_query: "stays (client_query stmt)"
  by (auto simp: stays_def client_query_def split: if_splits prod.splits)

lemma stays_and_then:
  assumes "stays m" and "\<And>a. stays (f a)"
  shows "stays (and_then m f)"
  unfolding stays_def
proof (intro allI impI)
  fix c r c'
  assume run: "and_then m f c = (r, c')"
  show "snap c' = snap c"
  proof (cases "m c")
    case (Pair r1 c1)
    with assms(1) have s1: "snap c1 = snap c"
      by (simp add: stays_def)
    show ?thesis
    proof (cases r1)
      case (Inl e)
      with run Pair s1 show ?thesis
        by (simp add: and_then_def)
    next
      case (Inr a)
      with run Pair have "f a c1 = (r, c')"
        by (simp add: and_then_def)
      with assms(2) [of a] s1 show ?thesis
        by (simp add: stays_def)
    qed
  qed
qed

lemma stays_insert_order_items: "stays (insert_order_items oid items)"
  by (induction items) (simp_all add: stays_return stays_and_then stays_query)

lemma fails_in_txn_stays: "stays m \<Longrightarrow> fails_in_txn m"
  by (simp add: stays_def fails_in_txn_def)

lemma fails_in_txn_and_then:
  assumes "stays m" and "\<And>a. fails_in_txn (f a)"
  shows "fails_in_txn (and_then m f)"
  unfolding fails_in_txn_def
proof (intro allI impI)
  fix c e c'
  assume "and_then m f c = (Inl e, c')"
  then consider "m c = (Inl e, c')" | a c1 where "m c = (Inr a, c1)" "f a c1 = (Inl e, c')"
    by (auto simp: and_then_Inl)
  then show "snap c' = snap c"
  proof cases
    case 1
    with assms(1) show ?thesis by (simp add: stays_def)
  next
    case 2
    with assms(1) have "snap c1 = snap c" by (simp add: stays_def)
    moreover from 2 assms(2) [of a] have "snap c' = snap c1" by (simp add: fails_in_txn_def)
    ultimately show ?thesis by simp
  qed
qed

lemma fails_in_txn_throw: "fails_in_txn (throw e)"
  by (simp add: fails_in_txn_stays stays_throw)

lemma fails_in_txn_commit: "fails_in_txn (and_then txn_commit (\<lambda>_. return_io a))"
  by (auto simp: fails_in_txn_def and_then_def txn_commit_def return_io_def split: if_splits)

lemma fails_in_txn_place_order:
  "fails_in_txn
     (and_then (client_query (select_cart_items uid)) (\<lambda>cartItems.
      if cartItems = [] then throw (JsError ''Cart is empty'')
      else
      and_then (client_query (insert_order uid ''pending'' (total_amount cartItems) shipping_address)) (\<lambda>inserted.
      (case inserted of
         [] \<Rightarrow> throw TypeError
       | order # _ \<Rightarrow>
      and_then (insert_order_items (o_id order) cartItems) (\<lambda>_.
      and_then (client_query (delete_cart_items uid)) (\<lambda>_.
      and_then txn_commit (\<lambda>_.
      return_io order)))))))"
  by (intro fails_in_txn_and_then stays_query)
     (auto intro!: fails_in_txn_and_then fails_in_txn_throw stays_query
        stays_insert_order_items fails_in_txn_commit split: list.splits)


lemma rolled_back:
  assumes "\<And>u. fails_in_txn (rest u)"
      and "with_client fs d (try_catch_rollback (and_then txn_begin rest) ok bad) = (r, d')"
      and "\<forall>a. r \<noteq> Sent ok a"
  shows "rows d' = rows d"
proof (cases "next_fails fs")
  case True
  with assms(2) show ?thesis by (simp add: with_client_def)
next
  case False
  let ?c = "\<lparr>cur = d, snap = None, faults = tl fs\<rparr>"
  obtain r1 c1 where body: "and_then txn_begin rest ?c = (r1, c1)"
    by (cases "and_then txn_begin rest ?c")
  obtain e where r1: "r1 = Inl e"
    using assms(2,3) False body
    by (cases r1) (auto simp: with_client_def try_catch_rollback_def)
  have state: "(cur c1 = d \<and> snap c1 = None) \<or> snap c1 = Some d"
  proof -
    from body r1 consider "txn_begin ?c = (Inl e, c1)"
      | u c0 where "txn_begin ?c = (Inr u, c0)" "rest u c0 = (Inl e, c1)"
      by (auto simp: and_then_Inl)
    then show ?thesis
    proof cases
      case 1
      then show ?thesis by (auto simp: txn_begin_def split: if_splits)
    next
      case 2
      from 2(1) have "snap c0 = Some d" by (auto simp: txn_begin_def split: if_splits)
      moreover from 2(2) assms(1) [of u] have "snap c1 = snap c0" by (simp add: fails_in_txn_def)
      ultimately show ?thesis by simp
    qed
  qed
  obtain r2 c2 where rb: "txn_rollback c1 = (r2, c2)"
    by (cases "txn_rollback c1")
  have "rows (release c2) = rows d"
    using state rb by (auto simp: txn_rollback_def release_def split: if_splits)
  moreover have "d' = release c2"
    using assms(2) False body r1 rb
    by (auto simp: with_client_def try_catch_rollback_def split: sum.splits)
  ultimately show ?thesis by simp
qed

lemma place_order_failure:
  assumes "place_order uid shipping_address fs d = (r, d')" and "\<forall>order. r \<noteq> Sent 201 order"
  shows "rows d' = rows d"
  using assms fails_in_txn_place_order
  unfolding place_order_def place_order_try_def
  by (rule_tac rolled_back) auto


lemma next_fails_drop: "next_fails (drop k fs) \<longleftrightarrow> k < length fs \<and> fs ! k"
proof (cases "k < length fs")
  case True
  then have "drop k fs = fs ! k # drop (Suc k) fs"
    by (simp add: Cons_nth_drop_Suc)
  with True show ?thesis by (simp add: next_fails_def)
next
  case False
  then show ?thesis by (simp add: next_fails_def)
qed

lemma tl_drop_Suc: "tl (drop k fs) = drop (Suc k) fs"
  by (simp add: drop_Suc tl_drop)

lemma query_ok_sched:
  assumes "client_query stmt c = (Inr a, c')" and "faults c = drop k fs"
  shows "\<not> (k < length fs \<and> fs ! k)" and "faults c' = drop (Suc k) fs"
    and "stmt (cur c) = (Inr a, cur c')"
  using assms
  by (auto simp: client_query_def next_fails_drop tl_drop_Suc split: if_splits prod.splits)

lemma begin_ok_sched:
  assumes "txn_begin c = (Inr a, c')" and "faults c = drop k fs"
  shows "\<not> (k < length fs \<and> fs ! k)" and "faults c' = drop (Suc k) fs" and "cur c' = cur c"
  using assms
  by (auto simp: txn_begin_def next_fails_drop tl_drop_Suc split: if_splits)

lemma loop_ok_sched:
  assumes "insert_order_items oid items c = (Inr u, c')" and "faults c = drop k fs"
  shows "(\<forall>i < length items. \<not> (k + i < length fs \<and> fs ! (k + i)))
         \<and> faults c' = drop (k + length items) fs"
  using assms
proof (induction items arbitrary: c k)
  case Nil
  then show ?case by (simp add: return_io_def)
next
  case (Cons item items)
  from Cons.prems(1) obtain a c1 where
    first: "client_query (insert_order_item oid (ci_product_id item) (ci_quantity item) (ci_price item)) c
              = (Inr a, c1)"
    and others: "insert_order_items oid items c1 = (Inr u, c')"
    by (auto simp: and_then_Inr)
  from query_ok_sched(1,2) [OF first Cons.prems(2)]
  have here: "\<not> (k < length fs \<and> fs ! k)" and nxt: "faults c1 = drop (Suc k) fs"
    by simp_all
  from Cons.IH [OF others nxt]
  have later: "\<forall>i < length items. \<not> (Suc k + i < length fs \<and> fs ! (Suc k + i))"
    and final: "faults c' = drop (Suc k + length items) fs"
    by simp_all
  have "\<not> (k + i < length fs \<and> fs ! (k + i))" if "i < length (item # items)" for i
  proof (cases i)
    case 0
    with here show ?thesis by simp
  next
    case (Suc j)
    with that later show ?thesis by simp
  qed
  with final show ?case by simp
qed

lemma place_order_Sent_sched:
  assumes "place_order uid shipping_address fs d = (Sent ok order, d')"
      and "k \<le> length (joined_cart_items uid d) + 4"
  shows "\<not> (k < length fs \<and> fs ! k)"
proof -
  let ?c = "\<lparr>cur = d, snap = None, faults = tl fs\<rparr>"
  let ?n = "length (joined_cart_items uid d)"
  have connected: "\<not> next_fails fs"
    using assms(1) by (auto simp: place_order_def with_client_def split: if_splits)
  then have k0: "\<not> (0 < length fs \<and> fs ! 0)"
    using next_fails_drop [of 0 fs] by simp
  have start: "faults ?c = drop 1 fs"
    by (simp add: drop_Suc)
  obtain c' where "place_order_try uid shipping_address ?c = (Inr order, c')"
    using assms(1) connected
    by (auto simp: place_order_def with_client_def try_catch_rollback_def
          split: prod.splits sum.splits)
  then obtain u1 c1 cartItems c2 where
    s1: "txn_begin ?c = (Inr u1, c1)"
    and s2: "client_query (select_cart_items uid) c1 = (Inr cartItems, c2)"
    and rest: "(if cartItems = [] then throw (JsError ''Cart is empty'')
      else
      and_then (client_query (insert_order uid ''pending'' (total_amount cartItems) shipping_address)) (\<lambda>inserted.
      (case inserted of
         [] \<Rightarrow> throw TypeError
       | order # _ \<Rightarrow>
      and_then (insert_order_items (o_id order) cartItems) (\<lambda>_.
      and_then (client_query (delete_cart_items uid)) (\<lambda>_.
      and_then txn_commit (\<lambda>_.
      return_io order)))))) c2 = (Inr order, c')"
    unfolding place_order_try_def by (auto simp: and_then_Inr)
  from begin_ok_sched [OF s1 start]
  have k1: "\<not> (1 < length fs \<and> fs ! 1)" and f1: "faults c1 = drop 2 fs" and cur1: "cur c1 = d"
    by (simp_all add: numeral_2_eq_2)
  from query_ok_sched(1,2) [OF s2 f1]
  have k2: "\<not> (2 < length fs \<and> fs ! 2)" and f2: "faults c2 = drop 3 fs"
    by (simp_all add: numeral_3_eq_3 numeral_2_eq_2)
  from query_ok_sched(3) [OF s2 f1]
  have items: "cartItems = joined_cart_items uid d"
    by (auto simp: select_cart_items_def cur1)
  from rest have nonempty: "cartItems \<noteq> []"
    by (auto simp: throw_def split: if_splits)
  with rest obtain inserted c3 where
    s3: "client_query (insert_order uid ''pending'' (total_amount cartItems) shipping_address) c2
           = (Inr inserted, c3)"
    and rest3: "(case inserted of
         [] \<Rightarrow> throw TypeError
       | order # _ \<Rightarrow>
      and_then (insert_order_items (o_id order) cartItems) (\<lambda>_.
      and_then (client_query (delete_cart_items uid)) (\<lambda>_.
      and_then txn_commit (\<lambda>_.
      return_io order)))) c3 = (Inr order, c')"
    by (auto simp: and_then_Inr)
  from query_ok_sched(1,2) [OF s3 f2]
  have k3: "\<not> (3 < length fs \<and> fs ! 3)" and f3: "faults c3 = drop 4 fs"
    by (simp_all add: eval_nat_numeral)
  from rest3 obtain row more u4 c4 u5 c5 where
    "inserted = row # more"
    and s4: "insert_order_items (o_id row) cartItems c3 = (Inr u4, c4)"
    and s5: "client_query (delete_cart_items uid) c4 = (Inr u5, c5)"
    by (cases inserted) (auto simp: and_then_Inr throw_def)
  from loop_ok_sched [OF s4 f3]
  have k4: "\<forall>i < ?n. \<not> (4 + i < length fs \<and> fs ! (4 + i))"
    and f4: "faults c4 = drop (4 + ?n) fs"
    by (simp_all add: items)
  from query_ok_sched(1) [OF s5 f4]
  have k5: "\<not> (4 + ?n < length fs \<and> fs ! (4 + ?n))" .
  show ?thesis
  proof (cases "k < 4")
    case True
    then have "k = 0 \<or> k = 1 \<or> k = 2 \<or> k = 3"
      by arith
    with k0 k1 k2 k3 show ?thesis
      by auto
  next
    case False
    define i where "i = k - 4"
    with False have k: "k = 4 + i"
      by simp
    show ?thesis
    proof (cases "i < ?n")
      case True
      with k4 k show ?thesis by simp
    next
      case False
      with k assms(2) have "k = 4 + ?n" by simp
      with k5 show ?thesis by simp
    qed
  qed
qed

subsection \<open>Placing an order\<close>

lemma place_order_empty_any:
  assumes "joined_cart_items uid d = []"
  shows "place_order uid shipping_address fs d
           \<in> {(Escaped StoreFailure, d), (SentError 400 StoreFailure, d),
              (SentError 400 (JsError ''Cart is empty''), d)}"
  using assms
  by (simp add: place_order_def with_client_def try_catch_rollback_def place_order_try_def
        and_then_def client_query_def txn_begin_def txn_rollback_def select_cart_items_def
        throw_def release_def)

lemma place_order_empty_ok:
  assumes "joined_cart_items uid d = []" and "True \<notin> set fs"
  shows "place_order uid shipping_address fs d = (SentError 400 (JsError ''Cart is empty''), d)"
  using assms
  by (simp add: place_order_def with_client_def try_catch_rollback_def place_order_try_def
        and_then_def client_query_def txn_begin_def txn_rollback_def select_cart_items_def
        throw_def release_def)

text \<open>
  Claim C4. When the join of the user's carts and cart items is empty (an empty cart, or no
  cart at all), placing an order never succeeds and leaves the store exactly as it was,
  whatever the store does; when the store answers, the error is \<^verbatim>\<open>Error('Cart is empty')\<close>
  with status 400, and a second call gives the same answer and the same store.
\<close>

theorem place_order_empty_cart:
  assumes "joined_cart_items uid d = []"
  shows "(\<forall>order. fst (place_order uid shipping_address fs d) \<noteq> Sent 201 order)
       \<and> snd (place_order uid shipping_address fs d) = d
       \<and> (True \<notin> set fs \<longrightarrow>
            place_order uid shipping_address fs d = (SentError 400 (JsError ''Cart is empty''), d))
       \<and> (True \<notin> set fs \<longrightarrow> True \<notin> set fs' \<longrightarrow>
            place_order uid shipping_address fs' (snd (place_order uid shipping_address fs d))
              = (SentError 400 (JsError ''Cart is empty''), d))"
proof -
  from place_order_empty_any [OF assms, of shipping_address fs]
  have any: "(\<forall>order. fst (place_order uid shipping_address fs d) \<noteq> Sent 201 order)
       \<and> snd (place_order uid shipping_address fs d) = d"
    by auto
  then show ?thesis
    using place_order_empty_ok [OF assms] by simp
qed

theorem place_order_empty_cart_witness:
  "place_order ''u'' (Some ''addr'') [] shop_order
     = (SentError 400 (JsError ''Cart is empty''), shop_order)
   \<and> place_order ''u'' (Some ''addr'') [] (snd (place_order ''u'' (Some ''addr'') [] shop_order))
     = (SentError 400 (JsError ''Cart is empty''), shop_order)
   \<and> place_order ''w'' (Some ''addr'') [] shop_cart
     = (SentError 400 (JsError ''Cart is empty''), shop_cart)"
proof -
  have none: "True \<notin> set ([] :: bool list)"
    by simp
  have emptied: "joined_cart_items ''u'' shop_order = []"
    by (simp add: joined_cart_items_def shop_order_def)
  have no_cart: "joined_cart_items ''w'' shop_cart = []"
    by (simp add: joined_cart_items_def shop_cart_def)
  from place_order_empty_cart [OF emptied, of "Some ''addr''" "[]" "[]"]
       place_order_empty_cart [OF no_cart, of "Some ''addr''" "[]" "[]"] none
  show ?thesis
    by simp
qed

text \<open>
  Claim C2. The calls of a request to the store are numbered from 0: the connection, \<^verbatim>\<open>BEGIN\<close>,
  the \<^verbatim>\<open>SELECT\<close> of the cart items (2), the \<^verbatim>\<open>INSERT\<close> of the order (3), one \<^verbatim>\<open>INSERT\<close> for each
  of the \<open>n\<close> cart items (4 to \<open>n + 3\<close>), the \<^verbatim>\<open>DELETE\<close> of the cart items (\<open>n + 4\<close>) and
  \<^verbatim>\<open>COMMIT\<close>. If a call up to the \<^verbatim>\<open>DELETE\<close> is scheduled to reject, the request does not
  answer 201; and whenever it does not answer 201, every table holds the rows it held before
  the call: no order, no order item, no cart item deleted. So cart items are deleted only
  by a request that creates the order.
\<close>

theorem place_order_all_or_nothing:
  assumes "place_order uid shipping_address fs d = (r, d')"
  shows "((\<exists>k \<le> length (joined_cart_items uid d) + 4. k < length fs \<and> fs ! k)
            \<longrightarrow> (\<forall>order. r \<noteq> Sent 201 order))
       \<and> ((\<forall>order. r \<noteq> Sent 201 order) \<longrightarrow> rows d' = rows d)"
proof (intro conjI impI allI)
  fix order
  assume "\<exists>k \<le> length (joined_cart_items uid d) + 4. k < length fs \<and> fs ! k"
  then obtain k where k: "k \<le> length (joined_cart_items uid d) + 4" "k < length fs" "fs ! k"
    by blast
  show "r \<noteq> Sent 201 order"
  proof
    assume "r = Sent 201 order"
    with assms have "place_order uid shipping_address fs d = (Sent 201 order, d')"
      by simp
    from place_order_Sent_sched [OF this k(1)] k(2,3) show False
      by simp
  qed
next
  assume "\<forall>order. r \<noteq> Sent 201 order"
  with assms show "rows d' = rows d"
    by (rule place_order_failure)
qed

theorem place_order_all_or_nothing_witness:
  "fst (place_order ''u'' (Some ''addr'') [False, False, False, False, False, True] shop_cart)
     \<noteq> Sent 201 shop_order_row
   \<and> rows (snd (place_order ''u'' (Some ''addr'') [False, False, False, False, False, True] shop_cart))
     = rows shop_cart"
proof -
  let ?fs = "[False, False, False, False, False, True]"
  have run: "place_order ''u'' (Some ''addr'') ?fs shop_cart
               = (fst (place_order ''u'' (Some ''addr'') ?fs shop_cart),
                  snd (place_order ''u'' (Some ''addr'') ?fs shop_cart))"
    by simp
  have two: "length (joined_cart_items ''u'' shop_cart) = 2"
    by (simp add: joined_cart_items_def shop_cart_def)
  have fault: "\<exists>k \<le> length (joined_cart_items ''u'' shop_cart) + 4. k < length ?fs \<and> ?fs ! k"
    unfolding two by (intro exI [of _ 5]) simp
  from place_order_all_or_nothing [OF run] fault show ?thesis
    by blast
qed

subsection \<open>A placed order\<close>









subsection \<open>Adding a cart item\<close>











subsection \<open>One cart for each user\<close>




lemma carts_are_faults [simp]: "carts_are S (c\<lparr>faults := fs\<rparr>) = carts_are S c"
  by (simp add: carts_are_def)




lemma shopping_carts_restore [simp]: "shopping_carts (restore s d) = shopping_carts s"
  by (simp add: restore_def)

























end
